theory Spec2Isabelle
  imports Complex_Main "HOL-Library.Multiset"
begin

section \<open>Column names: \<open>to_snake_case\<close>\<close>

text \<open>
  Column names are Python strings, modelled as character lists. The four character
  classes used by the regular expressions of \<open>to_snake_case\<close> are ASCII ranges.
\<close>

definition is_upper :: "char \<Rightarrow> bool" where
  "is_upper c = (65 \<le> (of_char c :: nat) \<and> (of_char c :: nat) \<le> 90)"

definition is_lower :: "char \<Rightarrow> bool" where
  "is_lower c = (97 \<le> (of_char c :: nat) \<and> (of_char c :: nat) \<le> 122)"

definition is_digit :: "char \<Rightarrow> bool" where
  "is_digit c = (48 \<le> (of_char c :: nat) \<and> (of_char c :: nat) \<le> 57)"

text \<open>The class \<open>[0-9a-zA-Z_]\<close> of the fourth step.\<close>

definition is_word :: "char \<Rightarrow> bool" where
  "is_word c = (is_digit c \<or> is_lower c \<or> is_upper c \<or> c = CHR ''_'')"

text \<open>The class \<open>[a-z0-9_]\<close> of a canonical column name.\<close>

definition is_canon :: "char \<Rightarrow> bool" where
  "is_canon c = (is_lower c \<or> is_digit c \<or> c = CHR ''_'')"

text \<open>\<open>str.lower\<close> on the characters that survive the fourth step (ASCII letters).\<close>

definition lower_char :: "char \<Rightarrow> char" where
  "lower_char c = (if is_upper c then char_of ((of_char c :: nat) + 32) else c)"

text \<open>
  \<open>re.sub('(.)([A-Z][a-z]+)', r'\1_\2', s)\<close>: scanning from the left, a match needs
  any character but a newline, then an upper-case letter, then one or more lower-case
  letters (taken greedily); the scan resumes after the match.
\<close>

function sub_pascal :: "string \<Rightarrow> string" where
  "sub_pascal (c # u # l # rest) =
     (if c \<noteq> CHR 0x0A \<and> is_upper u \<and> is_lower l
      then c # CHR ''_'' # u # l # takeWhile is_lower rest @ sub_pascal (dropWhile is_lower rest)
      else c # sub_pascal (u # l # rest))"
| "sub_pascal [c, u] = [c, u]"
| "sub_pascal [c] = [c]"
| "sub_pascal [] = []"
  by pat_completeness auto
termination
  by (relation "measure length") (auto simp: length_dropWhile_le less_Suc_eq_le le_SucI)

text \<open>\<open>re.sub('([a-z0-9])([A-Z])', r'\1_\2', s)\<close>.\<close>

fun sub_camel :: "string \<Rightarrow> string" where
  "sub_camel (a # b # rest) =
     (if (is_lower a \<or> is_digit a) \<and> is_upper b
      then a # CHR ''_'' # b # sub_camel rest
      else a # sub_camel (b # rest))"
| "sub_camel [a] = [a]"
| "sub_camel [] = []"

definition to_snake_case :: "string \<Rightarrow> string" where
  "to_snake_case s =
     (let s1 = sub_pascal s;
          s2 = sub_camel s1;
          s3 = map (\<lambda>c. if c = CHR '' '' then CHR ''_'' else c) s2;
          s4 = filter is_word s3
      in map lower_char s4)"


section \<open>Tables\<close>

text \<open>
  A cell of a \<open>DataFrame\<close>: a missing value (\<open>None\<close>, \<open>NaN\<close>, \<open>NaT\<close>), an integer,
  a finite float (by its exact rational value), a string, or a timestamp (nanoseconds
  since the epoch, as \<open>pd.to_datetime\<close> produces).
\<close>

datatype cell = CNull | CInt int | CFloat rat | CStr string | CTime int

type_synonym series = "cell list"

text \<open>
  A \<open>DataFrame\<close> is the ordered list of its columns, each a name and the values of
  the rows, in row order. Names may repeat. Row labels are positions.
\<close>

type_synonym table = "(string \<times> series) list"

text \<open>
  What the code can raise. \<open>UnparseableDate\<close>: \<open>pd.to_datetime\<close> rejects a value.
  \<open>InvalidInteger\<close>: \<open>astype(int)\<close> rejects a value (a \<open>ValueError\<close>).
  \<open>DuplicateColumn\<close>: a column read by name exists more than once, so that
  \<open>df[name]\<close> is a frame and not a series, which the statements that follow reject
  (a \<open>ValueError\<close>). \<open>MissingColumn\<close>: a \<open>KeyError\<close>. \<open>NoColumns\<close>: the
  \<open>IndexError\<close> of \<open>df.columns[0]\<close>.
\<close>

datatype error = UnparseableDate | InvalidInteger | DuplicateColumn | MissingColumn | NoColumns

definition columns :: "table \<Rightarrow> string list" where
  "columns df = map fst df"

definition nrows :: "table \<Rightarrow> nat" where
  "nrows df = (case df of [] \<Rightarrow> 0 | (_, xs) # _ \<Rightarrow> length xs)"

text \<open>\<open>df.empty\<close>: no column or no row.\<close>

definition empty_df :: "table \<Rightarrow> bool" where
  "empty_df df = (df = [] \<or> nrows df = 0)"

text \<open>All columns have the same number of rows.\<close>

definition wf_table :: "table \<Rightarrow> bool" where
  "wf_table df = list_all (\<lambda>(_, xs). length xs = nrows df) df"

text \<open>\<open>df[name]\<close> read as a series.\<close>

definition getitem :: "string \<Rightarrow> table \<Rightarrow> error + series" where
  "getitem name df =
     (case filter (\<lambda>(n, _). n = name) df of
        [] \<Rightarrow> Inl MissingColumn
      | [(_, xs)] \<Rightarrow> Inr xs
      | _ \<Rightarrow> Inl DuplicateColumn)"

text \<open>
  \<open>df[name] = values\<close>: every column of that name is replaced; a new name is appended.
\<close>

definition setitem :: "string \<Rightarrow> series \<Rightarrow> table \<Rightarrow> table" where
  "setitem name xs df =
     (if name \<in> set (columns df)
      then map (\<lambda>(n, ys). if n = name then (n, xs) else (n, ys)) df
      else df @ [(name, xs)])"

text \<open>\<open>df.rename(columns={old: new})\<close>.\<close>

definition rename :: "string \<Rightarrow> string \<Rightarrow> table \<Rightarrow> table" where
  "rename old new df = map (\<lambda>(n, xs). (if n = old then new else n, xs)) df"

text \<open>The rows at the positions \<open>sel\<close>, in that order.\<close>

definition take_rows :: "nat list \<Rightarrow> table \<Rightarrow> table" where
  "take_rows sel df = map (\<lambda>(n, xs). (n, map (\<lambda>i. xs ! i) sel)) df"

definition normalize_columns :: "table \<Rightarrow> table" where
  "normalize_columns df = map (\<lambda>(n, xs). (to_snake_case n, xs)) df"

section \<open>The time window\<close>

text \<open>\<open>"date" in c\<close>.\<close>

fun contains :: "string \<Rightarrow> string \<Rightarrow> bool" where
  "contains p [] = (p = [])"
| "contains p (c # cs) = (take (length p) (c # cs) = p \<or> contains p cs)"

text \<open>\<open>next((c for c in df.columns if "date" in c), df.columns[0])\<close>.\<close>

definition select_date_col :: "string list \<Rightarrow> error + string" where
  "select_date_col cs =
     (case cs of
        [] \<Rightarrow> Inl NoColumns
      | c0 # _ \<Rightarrow> Inr (case find (contains ''date'') cs of Some c \<Rightarrow> c | None \<Rightarrow> c0))"

text \<open>
  The outcome of \<open>pd.to_datetime\<close> on one value. The parser of pandas is not part of
  the program: what it makes of a string or a number is the parameter \<open>P\<close>. A missing
  value becomes \<open>NaT\<close>, a timestamp is kept.
\<close>

datatype parsed = Unparseable | NaT | At int

definition to_datetime_cell :: "(cell \<Rightarrow> parsed) \<Rightarrow> cell \<Rightarrow> parsed" where
  "to_datetime_cell P c = (case c of CNull \<Rightarrow> NaT | CTime t \<Rightarrow> At t | _ \<Rightarrow> P c)"

fun to_datetime :: "(cell \<Rightarrow> parsed) \<Rightarrow> series \<Rightarrow> error + series" where
  "to_datetime P [] = Inr []"
| "to_datetime P (c # cs) =
     (case to_datetime_cell P c of
        Unparseable \<Rightarrow> Inl UnparseableDate
      | NaT \<Rightarrow> (case to_datetime P cs of Inl e \<Rightarrow> Inl e | Inr ds \<Rightarrow> Inr (CNull # ds))
      | At t \<Rightarrow> (case to_datetime P cs of Inl e \<Rightarrow> Inl e | Inr ds \<Rightarrow> Inr (CTime t # ds)))"

text \<open>\<open>df[date_col] = pd.to_datetime(df[date_col])\<close>.\<close>

definition parse_dates :: "(cell \<Rightarrow> parsed) \<Rightarrow> string \<Rightarrow> table \<Rightarrow> error + table" where
  "parse_dates P date_col df =
     (case getitem date_col df of
        Inl e \<Rightarrow> Inl e
      | Inr xs \<Rightarrow> (case to_datetime P xs of
                    Inl e \<Rightarrow> Inl e
                  | Inr ds \<Rightarrow> Inr (setitem date_col ds df)))"

text \<open>\<open>timedelta(days=30)\<close> in nanoseconds.\<close>

definition thirty_days :: int where
  "thirty_days = 30 * 86400 * 1000000000"

text \<open>
  \<open>(d >= today - timedelta(days=30)) & (d <= today)\<close>; every comparison with
  \<open>NaT\<close> is false. \<open>today\<close> is the value of \<open>datetime.today()\<close>.
\<close>

definition in_window :: "int \<Rightarrow> cell \<Rightarrow> bool" where
  "in_window today c =
     (case c of CTime t \<Rightarrow> today - thirty_days \<le> t \<and> t \<le> today | _ \<Rightarrow> False)"

text \<open>The positions a boolean mask selects.\<close>

definition mask_rows :: "bool list \<Rightarrow> nat list" where
  "mask_rows keep = filter (\<lambda>i. keep ! i) [0..<length keep]"

text \<open>\<open>df = df[(df[date_col] >= last_30_days) & (df[date_col] <= today)]\<close>.\<close>

definition filter_window :: "int \<Rightarrow> string \<Rightarrow> table \<Rightarrow> error + table" where
  "filter_window today date_col df =
     (case getitem date_col df of
        Inl e \<Rightarrow> Inl e
      | Inr ds \<Rightarrow> Inr (take_rows (mask_rows (map (in_window today) ds)) df))"


section \<open>The confirmed column\<close>

text \<open>
  \<open>if "confirmed" not in df.columns and "cases" in df.columns: df = df.rename(...)\<close>,
  then \<open>if "confirmed" not in df.columns: df["confirmed"] = 0\<close>.
\<close>

definition alias_cases :: "table \<Rightarrow> table" where
  "alias_cases df =
     (if ''confirmed'' \<notin> set (columns df) \<and> ''cases'' \<in> set (columns df)
      then rename ''cases'' ''confirmed'' df else df)"

definition default_confirmed :: "table \<Rightarrow> table" where
  "default_confirmed df =
     (if ''confirmed'' \<notin> set (columns df)
      then setitem ''confirmed'' (replicate (nrows df) (CInt 0)) df else df)"

text \<open>
  \<open>int(s)\<close> on a string, as \<open>astype(int)\<close> applies it to the strings of a column:
  white space around the number is dropped, a sign may lead, and the decimal digits may
  be grouped by single underscores. (ASCII strings.)
\<close>

definition is_space :: "char \<Rightarrow> bool" where
  "is_space c = ((9 \<le> (of_char c :: nat) \<and> (of_char c :: nat) \<le> 13)
                 \<or> (28 \<le> (of_char c :: nat) \<and> (of_char c :: nat) \<le> 32))"

definition digit_val :: "char \<Rightarrow> int" where
  "digit_val c = int (of_char c) - 48"

fun py_digits :: "int \<Rightarrow> string \<Rightarrow> int option" where
  "py_digits acc [] = Some acc"
| "py_digits acc [c] = (if is_digit c then Some (10 * acc + digit_val c) else None)"
| "py_digits acc (c # d # cs) =
     (if is_digit c then py_digits (10 * acc + digit_val c) (d # cs)
      else if c = CHR ''_'' \<and> is_digit d then py_digits (10 * acc + digit_val d) cs
      else None)"

definition py_unsigned :: "string \<Rightarrow> int option" where
  "py_unsigned s =
     (case s of [] \<Rightarrow> None
      | c # cs \<Rightarrow> if is_digit c then py_digits (digit_val c) cs else None)"

definition strip :: "string \<Rightarrow> string" where
  "strip s = rev (dropWhile is_space (rev (dropWhile is_space s)))"

definition py_int :: "string \<Rightarrow> int option" where
  "py_int s =
     (case strip s of
        [] \<Rightarrow> None
      | c # cs \<Rightarrow>
          if c = CHR ''-'' then map_option uminus (py_unsigned cs)
          else if c = CHR ''+'' then py_unsigned cs
          else py_unsigned (c # cs))"

text \<open>A float is cut towards zero.\<close>

definition trunc :: "rat \<Rightarrow> int" where
  "trunc q = (if 0 \<le> q then \<lfloor>q\<rfloor> else \<lceil>q\<rceil>)"

text \<open>
  \<open>fillna(0).astype(int)\<close> on one value. A timestamp (the date column, when it is the
  column called \<open>confirmed\<close>) gives its nanoseconds.
\<close>

definition coerce_cell :: "cell \<Rightarrow> int option" where
  "coerce_cell c =
     (case c of
        CNull \<Rightarrow> Some 0
      | CInt n \<Rightarrow> Some n
      | CFloat q \<Rightarrow> Some (trunc q)
      | CStr s \<Rightarrow> py_int s
      | CTime t \<Rightarrow> Some t)"

fun coerce_series :: "series \<Rightarrow> error + int list" where
  "coerce_series [] = Inr []"
| "coerce_series (c # cs) =
     (case coerce_cell c of
        None \<Rightarrow> Inl InvalidInteger
      | Some n \<Rightarrow> (case coerce_series cs of Inl e \<Rightarrow> Inl e | Inr ns \<Rightarrow> Inr (n # ns)))"

text \<open>\<open>df["confirmed"] = df["confirmed"].fillna(0).astype(int)\<close>.\<close>

definition coerce_confirmed :: "table \<Rightarrow> error + table" where
  "coerce_confirmed df =
     (case getitem ''confirmed'' df of
        Inl e \<Rightarrow> Inl e
      | Inr xs \<Rightarrow> (case coerce_series xs of
                    Inl e \<Rightarrow> Inl e
                  | Inr ns \<Rightarrow> Inr (setitem ''confirmed'' (map CInt ns) df)))"

section \<open>Sorting\<close>

text \<open>
  The value \<open>sort_values\<close> compares: a timestamp, or an integer when the date column
  is the coerced \<open>confirmed\<close> column. No other value is in that column then.
\<close>

definition cell_key :: "cell \<Rightarrow> int" where
  "cell_key c = (case c of CTime t \<Rightarrow> t | CInt n \<Rightarrow> n | _ \<Rightarrow> 0)"

text \<open>
  \<open>df.sort_values(date_col)\<close>. The sort of pandas is not stable by default, so the order
  it gives to equal keys is not fixed by the program: the permutation it returns for a
  list of keys is the parameter \<open>argsort\<close>, of which \<open>sorting\<close> says what pandas
  promises.
\<close>

definition sorting :: "(int list \<Rightarrow> nat list) \<Rightarrow> bool" where
  "sorting argsort =
     (\<forall>ks. mset (argsort ks) = mset [0..<length ks] \<and> sorted (map (\<lambda>i. ks ! i) (argsort ks)))"

definition sort_values :: "(int list \<Rightarrow> nat list) \<Rightarrow> string \<Rightarrow> table \<Rightarrow> error + table" where
  "sort_values argsort date_col df =
     (case getitem date_col df of
        Inl e \<Rightarrow> Inl e
      | Inr ds \<Rightarrow> Inr (take_rows (argsort (map cell_key ds)) df))"

text \<open>A stable sort, one of the sorts pandas may use.\<close>

definition stable_argsort :: "int list \<Rightarrow> nat list" where
  "stable_argsort ks = sort_key (\<lambda>i. ks ! i) [0..<length ks]"


section \<open>Metrics and risk\<close>

text \<open>
  The integer in a cell of a column that \<open>astype(int)\<close> produced; the columns read
  below hold no other cell.
\<close>

definition int_of_cell :: "cell \<Rightarrow> int" where
  "int_of_cell c = (case c of CInt n \<Rightarrow> n | _ \<Rightarrow> 0)"

text \<open>\<open>Series.diff()\<close> and \<open>Series.shift(1)\<close>: the first entry is missing.\<close>

definition diff :: "int list \<Rightarrow> int option list" where
  "diff c = (case c of [] \<Rightarrow> [] | _ # xs \<Rightarrow> None # map (\<lambda>(a, b). Some (b - a)) (zip c xs))"

definition shift1 :: "int list \<Rightarrow> int option list" where
  "shift1 c = (case c of [] \<Rightarrow> [] | _ # _ \<Rightarrow> None # map Some (butlast c))"

text \<open>\<open>fillna\<close> with a series (row by row) and with a constant, then \<open>astype(int)\<close>.\<close>

definition fillna_series :: "int option list \<Rightarrow> int list \<Rightarrow> int list" where
  "fillna_series xs ds = map (\<lambda>(x, d). case x of None \<Rightarrow> d | Some v \<Rightarrow> v) (zip xs ds)"

definition fillna_const :: "int option list \<Rightarrow> int \<Rightarrow> int list" where
  "fillna_const xs d = map (\<lambda>x. case x of None \<Rightarrow> d | Some v \<Rightarrow> v) xs"

definition new_cases :: "int list \<Rightarrow> int list" where
  "new_cases c = fillna_series (diff c) c"

definition prev_confirmed :: "int list \<Rightarrow> int list" where
  "prev_confirmed c = fillna_const (shift1 c) 0"

text \<open>
  \<open>(new_cases / prev) if prev > 0 else 0.0\<close>. The quotient is the exact one; Python
  rounds it to the nearest float.
\<close>

definition safe_growth :: "int \<Rightarrow> int \<Rightarrow> rat" where
  "safe_growth n prev = (if prev > 0 then of_int n / of_int prev else 0)"

text \<open>\<open>risk_thresholds.get(key, default)\<close>.\<close>

definition dict_get :: "(string \<rightharpoonup> int) \<Rightarrow> string \<Rightarrow> int \<Rightarrow> int" where
  "dict_get d k dflt = (case d k of Some v \<Rightarrow> v | None \<Rightarrow> dflt)"

definition classify :: "(string \<rightharpoonup> int) \<Rightarrow> int \<Rightarrow> string" where
  "classify risk_thresholds n =
     (if n > dict_get risk_thresholds ''medium'' 10000 then ''alto''
      else if n > dict_get risk_thresholds ''low'' 1000 then ''medio''
      else ''bajo'')"

text \<open>
  Lines 95 to 112: \<open>new_cases\<close>, \<open>prev_confirmed\<close>, \<open>growth_rate\<close> (row by row, from
  the two columns just written), \<open>risk\<close> (from \<open>new_cases\<close>) and \<open>country\<close>.
\<close>

definition add_metrics :: "(string \<rightharpoonup> int) \<Rightarrow> string \<Rightarrow> table \<Rightarrow> error + table" where
  "add_metrics risk_thresholds ctry df =
     (case getitem ''confirmed'' df of
        Inl e \<Rightarrow> Inl e
      | Inr cs \<Rightarrow>
     let df1 = setitem ''new_cases'' (map CInt (new_cases (map int_of_cell cs))) df in
     (case getitem ''confirmed'' df1 of
        Inl e \<Rightarrow> Inl e
      | Inr cs1 \<Rightarrow>
     let df2 = setitem ''prev_confirmed'' (map CInt (prev_confirmed (map int_of_cell cs1))) df1 in
     (case getitem ''new_cases'' df2 of
        Inl e \<Rightarrow> Inl e
      | Inr ns \<Rightarrow>
     (case getitem ''prev_confirmed'' df2 of
        Inl e \<Rightarrow> Inl e
      | Inr ps \<Rightarrow>
     let df3 = setitem ''growth_rate''
                 (map (\<lambda>(n, p). CFloat (safe_growth (int_of_cell n) (int_of_cell p))) (zip ns ps)) df2 in
     (case getitem ''new_cases'' df3 of
        Inl e \<Rightarrow> Inl e
      | Inr ns1 \<Rightarrow>
     let df4 = setitem ''risk'' (map (\<lambda>n. CStr (classify risk_thresholds (int_of_cell n))) ns1) df3
     in Inr (setitem ''country'' (replicate (nrows df4) (CStr ctry)) df4))))))"

section \<open>Totals\<close>

record totals =
  country :: string
  total_confirmed :: int
  total_new_cases :: int

text \<open>\<open>Series.max()\<close> of a series that has a row.\<close>

definition max_list :: "int list \<Rightarrow> int" where
  "max_list xs = (case xs of [] \<Rightarrow> 0 | x # ys \<Rightarrow> fold max ys x)"

definition summarise :: "string \<Rightarrow> table \<Rightarrow> error + totals" where
  "summarise ctry df =
     (if empty_df df
      then Inr \<lparr>country = ctry, total_confirmed = 0, total_new_cases = 0\<rparr>
      else (case getitem ''confirmed'' df of
              Inl e \<Rightarrow> Inl e
            | Inr cs \<Rightarrow> (case getitem ''new_cases'' df of
                          Inl e \<Rightarrow> Inl e
                        | Inr ns \<Rightarrow> Inr \<lparr>country = ctry,
                                         total_confirmed = max_list (map int_of_cell cs),
                                         total_new_cases = sum_list (map int_of_cell ns)\<rparr>)))"

section \<open>\<open>process_country_df\<close>\<close>

text \<open>
  The table after line 92: columns normalised, dates parsed, rows outside the window
  dropped, \<open>confirmed\<close> resolved and coerced, rows sorted by the date column.
  \<open>today\<close> is what \<open>datetime.today()\<close> returns.
\<close>

definition windowed :: "int \<Rightarrow> (cell \<Rightarrow> parsed) \<Rightarrow> (int list \<Rightarrow> nat list) \<Rightarrow> table \<Rightarrow> error + table" where
  "windowed today P argsort df =
     (let df1 = normalize_columns df in
      case select_date_col (columns df1) of
        Inl e \<Rightarrow> Inl e
      | Inr date_col \<Rightarrow>
     (case parse_dates P date_col df1 of
        Inl e \<Rightarrow> Inl e
      | Inr df2 \<Rightarrow>
     (case filter_window today date_col df2 of
        Inl e \<Rightarrow> Inl e
      | Inr df3 \<Rightarrow>
     (case parse_dates P date_col df3 of
        Inl e \<Rightarrow> Inl e
      | Inr df4 \<Rightarrow>
     (case coerce_confirmed (default_confirmed (alias_cases df4)) of
        Inl e \<Rightarrow> Inl e
      | Inr df5 \<Rightarrow> sort_values argsort date_col df5)))))"

definition process_country_df ::
  "int \<Rightarrow> (cell \<Rightarrow> parsed) \<Rightarrow> (int list \<Rightarrow> nat list) \<Rightarrow>
   table \<Rightarrow> string \<Rightarrow> (string \<rightharpoonup> int) \<Rightarrow> error + table \<times> totals" where
  "process_country_df today P argsort df ctry risk_thresholds =
     (if empty_df df
      then Inr (df, \<lparr>country = ctry, total_confirmed = 0, total_new_cases = 0\<rparr>)
      else (case windowed today P argsort df of
              Inl e \<Rightarrow> Inl e
            | Inr df6 \<Rightarrow>
           (case add_metrics risk_thresholds ctry df6 of
              Inl e \<Rightarrow> Inl e
            | Inr df7 \<Rightarrow>
           (case summarise ctry df7 of
              Inl e \<Rightarrow> Inl e
            | Inr tot \<Rightarrow> Inr (df7, tot)))))"

section \<open>Objects\<close>

text \<open>
  A \<open>DataFrame\<close> is a mutable object and \<open>df\<close> is a reference to one. The store
  holds the frames that exist; a reference is a position in it. A statement
  \<open>df = \<dots>\<close> whose right-hand side builds a frame (\<open>df.copy()\<close>, \<open>df[mask]\<close>,
  \<open>df.rename\<close>, \<open>df.sort_values\<close>) allocates; an assignment \<open>df[name] = \<dots>\<close> or
  \<open>df.columns = \<dots>\<close> writes to the object that \<open>df\<close> refers to. A frame that a
  failing statement leaves behind is local to the call.
\<close>

type_synonym store = "table list"

definition alloc :: "table \<Rightarrow> store \<Rightarrow> store \<times> nat" where
  "alloc df h = (h @ [df], length h)"

definition process_country_df_obj ::
  "int \<Rightarrow> (cell \<Rightarrow> parsed) \<Rightarrow> (int list \<Rightarrow> nat list) \<Rightarrow>
   store \<Rightarrow> nat \<Rightarrow> string \<Rightarrow> (string \<rightharpoonup> int) \<Rightarrow> store \<times> (error + nat \<times> totals)" where
  "process_country_df_obj today P argsort h df ctry risk_thresholds =
     (if empty_df (h ! df)
      then (h, Inr (df, \<lparr>country = ctry, total_confirmed = 0, total_new_cases = 0\<rparr>))
      else
        let (h1, df1) = alloc (h ! df) h;
            h1 = h1[df1 := normalize_columns (h1 ! df1)]
        in
        case select_date_col (columns (h1 ! df1)) of
          Inl e \<Rightarrow> (h1, Inl e)
        | Inr date_col \<Rightarrow>
       (case parse_dates P date_col (h1 ! df1) of
          Inl e \<Rightarrow> (h1, Inl e)
        | Inr d2 \<Rightarrow>
        let h2 = h1[df1 := d2] in
       (case filter_window today date_col (h2 ! df1) of
          Inl e \<Rightarrow> (h2, Inl e)
        | Inr d3 \<Rightarrow>
        let (h3, df3) = alloc d3 h2 in
       (case parse_dates P date_col (h3 ! df3) of
          Inl e \<Rightarrow> (h3, Inl e)
        | Inr d4 \<Rightarrow>
        let h4 = h3[df3 := d4];
            (h5, df5) =
              (if ''confirmed'' \<notin> set (columns (h4 ! df3)) \<and> ''cases'' \<in> set (columns (h4 ! df3))
               then alloc (rename ''cases'' ''confirmed'' (h4 ! df3)) h4
               else (h4, df3));
            h5 = h5[df5 := default_confirmed (h5 ! df5)]
        in
       (case coerce_confirmed (h5 ! df5) of
          Inl e \<Rightarrow> (h5, Inl e)
        | Inr d6 \<Rightarrow>
        let h6 = h5[df5 := d6] in
       (case sort_values argsort date_col (h6 ! df5) of
          Inl e \<Rightarrow> (h6, Inl e)
        | Inr d7 \<Rightarrow>
        let (h7, df7) = alloc d7 h6 in
       (case add_metrics risk_thresholds ctry (h7 ! df7) of
          Inl e \<Rightarrow> (h7, Inl e)
        | Inr d8 \<Rightarrow>
        let h8 = h7[df7 := d8] in
       (case summarise ctry (h8 ! df7) of
          Inl e \<Rightarrow> (h8, Inl e)
        | Inr tot \<Rightarrow> (h8, Inr (df7, tot))))))))))"

section \<open>Instances for the examples\<close>

text \<open>
  A date parser: \<open>YYYY-MM-DD\<close> is midnight of that day, an integer is that many
  nanoseconds after the epoch (both as pandas reads them), and nothing else is a date.
\<close>

definition days_from_civil :: "int \<Rightarrow> int \<Rightarrow> int \<Rightarrow> int" where
  "days_from_civil y m d =
     (let y1 = (if m \<le> 2 then y - 1 else y);
          era = y1 div 400;
          yoe = y1 - era * 400;
          doy = (153 * (if m > 2 then m - 3 else m + 9) + 2) div 5 + d - 1;
          doe = yoe * 365 + yoe div 4 - yoe div 100 + doy
      in era * 146097 + doe - 719468)"

definition iso_dates :: "cell \<Rightarrow> parsed" where
  "iso_dates c =
     (case c of
        CStr [y1, y2, y3, y4, h1, m1, m2, h2, d1, d2] \<Rightarrow>
          if list_all is_digit [y1, y2, y3, y4, m1, m2, d1, d2] \<and> h1 = CHR ''-'' \<and> h2 = CHR ''-''
          then At (days_from_civil
                     (1000 * digit_val y1 + 100 * digit_val y2 + 10 * digit_val y3 + digit_val y4)
                     (10 * digit_val m1 + digit_val m2)
                     (10 * digit_val d1 + digit_val d2) * 86400 * 1000000000)
          else Unparseable
      | CInt n \<Rightarrow> At n
      | _ \<Rightarrow> Unparseable)"

text \<open>The fifth of January 2024, at midnight.\<close>

definition jan5 :: int where
  "jan5 = 19727 * 86400 * 1000000000"

text \<open>The table and the thresholds of the end-to-end example.\<close>

definition example_rows :: table where
  "example_rows = [(''date'', [CStr ''2024-01-01'', CStr ''2024-01-02'']),
                   (''confirmed'', [CInt 10, CInt 25])]"

definition example_thresholds :: "string \<rightharpoonup> int" where
  "example_thresholds = [''low'' \<mapsto> 5, ''medium'' \<mapsto> 20]"

text \<open>The thresholds of \<open>config.py\<close>.\<close>

definition RISK_THRESHOLDS :: "string \<rightharpoonup> int" where
  "RISK_THRESHOLDS = [''low'' \<mapsto> 100, ''medium'' \<mapsto> 500, ''high'' \<mapsto> 1000]"

section \<open>The column normaliser is idempotent\<close>

lemma lower_char_canon: "is_word c \<Longrightarrow> is_canon (lower_char c)"
  unfolding is_word_def is_canon_def lower_char_def is_upper_def is_lower_def is_digit_def
  by auto

lemma canon_not_upper: "is_canon c \<Longrightarrow> \<not> is_upper c"
  unfolding is_canon_def is_upper_def is_lower_def is_digit_def by auto

lemma canon_word: "is_canon c \<Longrightarrow> is_word c"
  unfolding is_canon_def is_word_def by auto

lemma sub_pascal_fix: "\<forall>c\<in>set s. \<not> is_upper c \<Longrightarrow> sub_pascal s = s"
  by (induction s rule: sub_pascal.induct) auto

lemma sub_camel_fix: "\<forall>c\<in>set s. \<not> is_upper c \<Longrightarrow> sub_camel s = s"
  by (induction s rule: sub_camel.induct) auto

lemma to_snake_case_canon: "list_all is_canon (to_snake_case s)"
  by (simp add: to_snake_case_def list_all_iff lower_char_canon)

lemma to_snake_case_fix:
  assumes "list_all is_canon s"
  shows "to_snake_case s = s"
proof -
  have nu: "\<forall>c\<in>set s. \<not> is_upper c"
    using assms by (auto simp: list_all_iff canon_not_upper)
  have nsp: "\<forall>c\<in>set s. c \<noteq> CHR '' ''"
    using assms by (auto simp: list_all_iff is_canon_def is_lower_def is_digit_def)
  have m: "map (\<lambda>c. if c = CHR '' '' then CHR ''_'' else c) s = s"
    using nsp by (induction s) auto
  have f: "filter is_word s = s"
    using assms by (auto simp: list_all_iff canon_word)
  have l: "map lower_char s = s"
    using nu by (induction s) (auto simp: lower_char_def)
  show ?thesis
    by (simp add: to_snake_case_def sub_pascal_fix[OF nu] sub_camel_fix[OF nu] m f l)
qed

text \<open>
  C8. The normaliser is idempotent, on a name and on the column names of a table:
  every name it returns is made of \<open>[a-z0-9_]\<close> only, and every such name is a fixed
  point.
\<close>

theorem normalizer_idempotent:
  "to_snake_case (to_snake_case x) = to_snake_case x
   \<and> normalize_columns (normalize_columns df) = normalize_columns df
   \<and> list_all is_canon (to_snake_case x)
   \<and> (list_all is_canon y \<longrightarrow> to_snake_case y = y)"
proof -
  have idem: "to_snake_case (to_snake_case z) = to_snake_case z" for z
    by (rule to_snake_case_fix[OF to_snake_case_canon])
  have "normalize_columns (normalize_columns df) = normalize_columns df"
    by (induction df) (auto simp: normalize_columns_def idem)
  with idem show ?thesis
    by (simp add: to_snake_case_canon to_snake_case_fix)
qed

theorem normalizer_idempotent_witness:
  "list_all is_canon ''last_update'' \<and> to_snake_case ''last_update'' = ''last_update''
   \<and> to_snake_case ''Last Update'' = ''last__update''
   \<and> to_snake_case (to_snake_case ''Last Update'') = to_snake_case ''Last Update''"
proof -
  have c: "list_all is_canon ''last_update''"
    by (simp add: is_canon_def is_lower_def is_digit_def)
  have e: "to_snake_case ''Last Update'' = ''last__update''"
    by code_simp
  from normalizer_idempotent[of "''Last Update''" "[]" "''last_update''"] c e
  show ?thesis by simp
qed

section \<open>The risk classifier\<close>

text \<open>
  C2 (as amended). For every integer and every thresholds map, \<open>classify\<close> returns
  \<open>alto\<close> exactly when \<open>n > medium\<close>, \<open>medio\<close> exactly when \<open>low < n \<le> medium\<close>
  and \<open>bajo\<close> otherwise, the cut-offs defaulting to 1000 and 10000. Every negative
  number is \<open>bajo\<close> exactly when both cut-offs are at least \<open>-1\<close>, so whenever they
  are not negative. The five values of the specification hold.
\<close>

theorem classify_total:
  "(classify th n = ''alto'' \<longleftrightarrow> n > dict_get th ''medium'' 10000)
   \<and> (classify th n = ''medio'' \<longleftrightarrow> dict_get th ''low'' 1000 < n \<and> n \<le> dict_get th ''medium'' 10000)
   \<and> (classify th n = ''bajo'' \<longleftrightarrow> n \<le> dict_get th ''low'' 1000 \<and> n \<le> dict_get th ''medium'' 10000)
   \<and> classify th n \<in> {''alto'', ''medio'', ''bajo''}
   \<and> dict_get Map.empty ''low'' 1000 = 1000 \<and> dict_get Map.empty ''medium'' 10000 = 10000
   \<and> ((\<forall>k<0. classify th k = ''bajo'') \<longleftrightarrow> - 1 \<le> dict_get th ''low'' 1000 \<and> - 1 \<le> dict_get th ''medium'' 10000)
   \<and> map (classify RISK_THRESHOLDS) [50, 100, 101, 500, 501]
       = [''bajo'', ''bajo'', ''medio'', ''medio'', ''alto'']"
proof -
  have neg: "(\<forall>k<0. classify th k = ''bajo'')
      \<longleftrightarrow> - 1 \<le> dict_get th ''low'' 1000 \<and> - 1 \<le> dict_get th ''medium'' 10000"
  proof
    assume a: "\<forall>k<0. classify th k = ''bajo''"
    then have "classify th (- 1) = ''bajo''" by simp
    then show "- 1 \<le> dict_get th ''low'' 1000 \<and> - 1 \<le> dict_get th ''medium'' 10000"
      by (auto simp: classify_def split: if_splits)
  next
    assume "- 1 \<le> dict_get th ''low'' 1000 \<and> - 1 \<le> dict_get th ''medium'' 10000"
    then show "\<forall>k<0. classify th k = ''bajo''"
      by (auto simp: classify_def)
  qed
  have vals: "map (classify RISK_THRESHOLDS) [50, 100, 101, 500, 501]
       = [''bajo'', ''bajo'', ''medio'', ''medio'', ''alto'']"
    by (simp add: classify_def dict_get_def RISK_THRESHOLDS_def)
  have main: "(classify th n = ''alto'' \<longleftrightarrow> n > dict_get th ''medium'' 10000)
   \<and> (classify th n = ''medio'' \<longleftrightarrow> dict_get th ''low'' 1000 < n \<and> n \<le> dict_get th ''medium'' 10000)
   \<and> (classify th n = ''bajo'' \<longleftrightarrow> n \<le> dict_get th ''low'' 1000 \<and> n \<le> dict_get th ''medium'' 10000)
   \<and> classify th n \<in> {''alto'', ''medio'', ''bajo''}"
    by (auto simp: classify_def)
  have dflt: "dict_get Map.empty ''low'' 1000 = 1000 \<and> dict_get Map.empty ''medium'' 10000 = 10000"
    by (simp add: dict_get_def)
  from main neg vals dflt show ?thesis by blast
qed

theorem classify_total_witness:
  "- 1 \<le> dict_get RISK_THRESHOLDS ''low'' 1000 \<and> - 1 \<le> dict_get RISK_THRESHOLDS ''medium'' 10000
   \<and> classify RISK_THRESHOLDS (- 7) = ''bajo''"
proof -
  have h: "- 1 \<le> dict_get RISK_THRESHOLDS ''low'' 1000 \<and> - 1 \<le> dict_get RISK_THRESHOLDS ''medium'' 10000"
    by (simp add: dict_get_def RISK_THRESHOLDS_def)
  with classify_total[of RISK_THRESHOLDS 0] have "\<forall>k<0. classify RISK_THRESHOLDS k = ''bajo''"
    by blast
  then have "classify RISK_THRESHOLDS (- 7) = ''bajo''" by simp
  with h show ?thesis by blast
qed

text \<open>
  With a negative cut-off a negative number is not \<open>bajo\<close>: for \<open>low = -10\<close> and
  \<open>medium = 500\<close>, \<open>-5\<close> is \<open>medio\<close>.
\<close>

theorem classify_negative_counterexample:
  "classify [''low'' \<mapsto> - 10, ''medium'' \<mapsto> 500] (- 5) = ''medio''
   \<and> \<not> (\<forall>k<0. classify [''low'' \<mapsto> - 10, ''medium'' \<mapsto> 500] k = ''bajo'')"
proof -
  have e: "classify [''low'' \<mapsto> - 10, ''medium'' \<mapsto> 500] (- 5) = ''medio''"
    by (simp add: classify_def dict_get_def)
  then have "\<exists>k<0. classify [''low'' \<mapsto> - 10, ''medium'' \<mapsto> 500] k \<noteq> ''bajo''"
    by (intro exI[of _ "- 5"]) simp
  with e show ?thesis by blast
qed

section \<open>Facts about tables\<close>




lemma filter_name_replace_same:
  "filter (\<lambda>(k, _). k = n) (map (\<lambda>(k, ys). if k = n then (k, xs) else (k, ys)) df)
     = map (\<lambda>_. (n, xs)) (filter (\<lambda>(k, _). k = n) df)"
  by (induction df) auto

lemma filter_name_absent: "n \<notin> set (columns df) \<Longrightarrow> filter (\<lambda>(k, _). k = n) df = []"
  by (induction df) (auto simp: columns_def)

lemma filter_name_setitem_same:
  "filter (\<lambda>(k, _). k = n) (setitem n xs df) =
     (if n \<in> set (columns df) then map (\<lambda>_. (n, xs)) (filter (\<lambda>(k, _). k = n) df) else [(n, xs)])"
  by (simp add: setitem_def filter_name_replace_same filter_name_absent)



lemma getitem_setitem_new:
  "n \<notin> set (columns df) \<Longrightarrow> getitem n (setitem n xs df) = Inr xs"
  by (auto simp: getitem_def filter_name_setitem_same)






lemma getitem_map_of: "getitem n df = Inr xs \<Longrightarrow> map_of df n = Some xs"
proof (induction df)
  case Nil then show ?case by (simp add: getitem_def)
next
  case (Cons a df)
  obtain k ys where a: "a = (k, ys)" by (cases a)
  show ?case
  proof (cases "k = n")
    case True
    with Cons.prems a show ?thesis by (auto simp: getitem_def split: list.splits)
  next
    case False
    with Cons a show ?thesis by (auto simp: getitem_def)
  qed
qed



lemma to_datetime_nth:
  "to_datetime P xs = Inr ds \<Longrightarrow> i < length xs \<Longrightarrow>
     ds ! i = (case to_datetime_cell P (xs ! i) of At t \<Rightarrow> CTime t | _ \<Rightarrow> CNull) \<and> to_datetime_cell P (xs ! i) \<noteq> Unparseable"
proof (induction xs arbitrary: ds i)
  case Nil then show ?case by simp
next
  case (Cons a xs)
  show ?case
  proof (cases i)
    case 0
    with Cons.prems show ?thesis by (auto split: parsed.splits sum.splits)
  next
    case (Suc j)
    with Cons.prems obtain ds' where d: "to_datetime P xs = Inr ds'" "ds ! i = ds' ! j"
      by (auto split: parsed.splits sum.splits)
    from Cons.IH[OF d(1), of j] Suc Cons.prems(2) d(2) show ?thesis by simp
  qed
qed

lemma to_datetime_idem: "to_datetime P xs = Inr ds \<Longrightarrow> to_datetime P ds = Inr ds"
  by (induction xs arbitrary: ds) (auto split: parsed.splits sum.splits simp: to_datetime_cell_def)


lemma sorting_stable: "sorting stable_argsort"
  by (simp add: sorting_def stable_argsort_def)

section \<open>Facts about the metrics\<close>



lemma fillna_diffs:
  "map (\<lambda>(v, d). case v of None \<Rightarrow> d | Some w \<Rightarrow> w) (zip (map (\<lambda>(a, b). Some (b - a)) (zip ys xs)) xs)
     = map (\<lambda>(a, b). b - a) (zip ys (xs :: int list))"
proof (induction xs arbitrary: ys)
  case Nil then show ?case by simp
next
  case (Cons x xs) then show ?case by (cases ys) simp_all
qed

lemma new_cases_Cons: "new_cases (x # xs) = x # map (\<lambda>(a, b). b - a) (zip (x # xs) xs)"
  by (simp add: new_cases_def fillna_series_def diff_def fillna_diffs)

lemma prev_confirmed_Cons: "prev_confirmed (x # xs) = 0 # butlast (x # xs)"
  by (simp add: prev_confirmed_def fillna_const_def shift1_def comp_def map_idI del: butlast.simps)








section \<open>The stages of \<open>process_country_df\<close>\<close>







lemma setitem_nonempty: "setitem n xs df \<noteq> []"
  by (auto simp: setitem_def columns_def)














lemma default_nonempty: "df \<noteq> [] \<Longrightarrow> default_confirmed df \<noteq> []"
  by (simp add: default_confirmed_def setitem_nonempty)

lemma select_date_col_nonempty: "select_date_col (columns df) = Inr dc \<Longrightarrow> df \<noteq> []"
  by (auto simp: select_date_col_def columns_def split: list.splits)






section \<open>The metrics of the returned table\<close>











section \<open>The coercion of \<open>confirmed\<close> and the end-to-end example\<close>

lemma argsort_two:
  assumes "sorting argsort" and "d1 < d2"
  shows "argsort [d1, d2] = [0, 1]"
proof -
  let ?p = "argsort [d1, d2]"
  from assms(1) have m: "mset ?p = mset [0..<length [d1, d2]]"
    and s: "sorted (map (\<lambda>i. [d1, d2] ! i) ?p)"
    unfolding sorting_def by blast+
  have u: "[0..<length [d1, d2]] = [0, 1]" by (simp add: upt_conv_Cons)
  from m have m': "mset ?p = {#0, 1#}" unfolding u by simp
  then have "size (mset ?p) = 2" by simp
  then have "length ?p = 2" by simp
  then obtain a b where p: "?p = [a, b]"
    by (auto simp: length_Suc_conv numeral_2_eq_2)
  from m' p have "{#a, b#} = {#0, 1#}" by simp
  then have "(a = 0 \<and> b = 1) \<or> (a = 1 \<and> b = 0)"
    by (auto simp: add_eq_conv_ex)
  moreover from s p have "[d1, d2] ! a \<le> [d1, d2] ! b" by simp
  ultimately show ?thesis using assms(2) p by auto
qed






lemma snake_date: "to_snake_case ''date'' = ''date''" and snake_confirmed: "to_snake_case ''confirmed'' = ''confirmed''"
  by code_simp+

text \<open>
  C1 (as amended). The end-to-end example: the two rows of \<open>2024-01-01\<close> and
  \<open>2024-01-02\<close> with \<open>confirmed\<close> 10 and 25, the thresholds \<open>low = 5\<close> and
  \<open>medium = 20\<close>, and a reference instant whose window covers both dates (parsed as
  \<open>d1 < d2\<close>). The call returns \<open>new_cases = [10, 15]\<close>, \<open>prev_confirmed = [0, 10]\<close>,
  \<open>growth_rate = [0, 1.5]\<close>, the totals 25 and 25, and \<open>risk = [medio, medio]\<close>: the
  risk is that of \<open>new_cases\<close>, and 15 is not above \<open>medium\<close>.
\<close>

theorem end_to_end_example:
  assumes "sorting argsort"
    and "P (CStr ''2024-01-01'') = At d1" and "P (CStr ''2024-01-02'') = At d2" and "d1 < d2"
    and "today - thirty_days \<le> d1" and "d2 \<le> today"
  shows "process_country_df today P argsort example_rows ctry example_thresholds =
     Inr ([(''date'', [CTime d1, CTime d2]),
           (''confirmed'', [CInt 10, CInt 25]),
           (''new_cases'', [CInt 10, CInt 15]),
           (''prev_confirmed'', [CInt 0, CInt 10]),
           (''growth_rate'', [CFloat 0, CFloat (3 / 2)]),
           (''risk'', [CStr ''medio'', CStr ''medio'']),
           (''country'', [CStr ctry, CStr ctry])],
          \<lparr>country = ctry, total_confirmed = 25, total_new_cases = 25\<rparr>)"
proof -
  let ?df2 = "[(''date'', [CTime d1, CTime d2]), (''confirmed'', [CInt 10, CInt 25])]"
  have ne: "\<not> empty_df example_rows"
    by (simp add: empty_df_def example_rows_def nrows_def)
  have n: "normalize_columns example_rows = example_rows"
    by (simp add: normalize_columns_def example_rows_def snake_date snake_confirmed)
  have dc: "select_date_col (columns example_rows) = Inr ''date''"
    by (simp add: select_date_col_def columns_def example_rows_def)
  have td: "to_datetime P [CStr ''2024-01-01'', CStr ''2024-01-02''] = Inr [CTime d1, CTime d2]"
    using assms(2,3) by (simp add: to_datetime_cell_def)
  have p1: "parse_dates P ''date'' example_rows = Inr ?df2"
    by (simp add: parse_dates_def getitem_def example_rows_def td setitem_def columns_def
          del: to_datetime.simps)
  have w1: "in_window today (CTime d1)" using assms(4,5,6) by (simp add: in_window_def)
  have w2: "in_window today (CTime d2)" using assms(4,5,6) by (simp add: in_window_def)
  have mr: "mask_rows [True, True] = [0, 1]"
    by (simp add: mask_rows_def upt_conv_Cons)
  have fw: "filter_window today ''date'' ?df2 = Inr ?df2"
    by (simp add: filter_window_def getitem_def w1 w2 mr take_rows_def)
  have td2: "to_datetime P [CTime d1, CTime d2] = Inr [CTime d1, CTime d2]"
    by (simp add: to_datetime_cell_def)
  have p2: "parse_dates P ''date'' ?df2 = Inr ?df2"
    by (simp add: parse_dates_def getitem_def td2 setitem_def columns_def del: to_datetime.simps)
  have al: "default_confirmed (alias_cases ?df2) = ?df2"
    by (simp add: default_confirmed_def alias_cases_def columns_def)
  have cc: "coerce_confirmed ?df2 = Inr ?df2"
    by (simp add: coerce_confirmed_def getitem_def coerce_cell_def setitem_def columns_def)
  have sv: "sort_values argsort ''date'' ?df2 = Inr ?df2"
    by (simp add: sort_values_def getitem_def cell_key_def argsort_two[OF assms(1,4)] take_rows_def)
  have w: "windowed today P argsort example_rows = Inr ?df2"
    by (simp add: windowed_def n dc p1 fw p2 al cc sv)
  let ?out = "[(''date'', [CTime d1, CTime d2]),
           (''confirmed'', [CInt 10, CInt 25]),
           (''new_cases'', [CInt 10, CInt 15]),
           (''prev_confirmed'', [CInt 0, CInt 10]),
           (''growth_rate'', [CFloat 0, CFloat (3 / 2)]),
           (''risk'', [CStr ''medio'', CStr ''medio'']),
           (''country'', [CStr ctry, CStr ctry])]"
  have nc: "new_cases [10, 25] = [10, 15]" by (simp add: new_cases_Cons)
  have pc: "prev_confirmed [10, 25] = [0, 10]" by (simp add: prev_confirmed_Cons)
  have cl: "classify example_thresholds 10 = ''medio''" "classify example_thresholds 15 = ''medio''"
    by (simp_all add: classify_def dict_get_def example_thresholds_def)
  have sg: "safe_growth 10 0 = 0" "safe_growth 15 10 = 3 / 2"
    by (simp_all add: safe_growth_def)
  have am: "add_metrics example_thresholds ctry ?df2 = Inr ?out"
    by (simp add: add_metrics_def getitem_def setitem_def columns_def int_of_cell_def nc pc cl sg nrows_def)
  have sm: "summarise ctry ?out = Inr \<lparr>country = ctry, total_confirmed = 25, total_new_cases = 25\<rparr>"
    by (simp add: summarise_def empty_df_def nrows_def getitem_def int_of_cell_def max_list_def)
  show ?thesis
    by (simp add: process_country_df_def ne w am sm)
qed

theorem end_to_end_example_witness:
  "sorting stable_argsort
   \<and> iso_dates (CStr ''2024-01-01'') = At 1704067200000000000
   \<and> iso_dates (CStr ''2024-01-02'') = At 1704153600000000000
   \<and> (1704067200000000000 :: int) < 1704153600000000000
   \<and> jan5 - thirty_days \<le> 1704067200000000000 \<and> 1704153600000000000 \<le> jan5
   \<and> process_country_df jan5 iso_dates stable_argsort example_rows ''MX'' example_thresholds =
     Inr ([(''date'', [CTime 1704067200000000000, CTime 1704153600000000000]),
           (''confirmed'', [CInt 10, CInt 25]),
           (''new_cases'', [CInt 10, CInt 15]),
           (''prev_confirmed'', [CInt 0, CInt 10]),
           (''growth_rate'', [CFloat 0, CFloat (3 / 2)]),
           (''risk'', [CStr ''medio'', CStr ''medio'']),
           (''country'', [CStr ''MX'', CStr ''MX''])],
          \<lparr>country = ''MX'', total_confirmed = 25, total_new_cases = 25\<rparr>)"
proof -
  have a: "iso_dates (CStr ''2024-01-01'') = At 1704067200000000000" by code_simp
  have b: "iso_dates (CStr ''2024-01-02'') = At 1704153600000000000" by code_simp
  have c: "(1704067200000000000 :: int) < 1704153600000000000" by simp
  have d: "jan5 - thirty_days \<le> 1704067200000000000" by (simp add: jan5_def thirty_days_def)
  have e: "1704153600000000000 \<le> jan5" by (simp add: jan5_def)
  from end_to_end_example[OF sorting_stable a b c d e, of "''MX''"] sorting_stable a b c d e
  show ?thesis by blast
qed

text \<open>
  The second row of the example is not \<open>alto\<close>: its \<open>new_cases\<close> is 15, which does not
  exceed \<open>medium = 20\<close>.
\<close>

theorem end_to_end_risk_counterexample:
  "(case process_country_df jan5 iso_dates stable_argsort example_rows ''MX'' example_thresholds of
      Inl e \<Rightarrow> Inl e | Inr (out, tot) \<Rightarrow> getitem ''risk'' out)
     = Inr [CStr ''medio'', CStr ''medio'']
   \<and> (case process_country_df jan5 iso_dates stable_argsort example_rows ''MX'' example_thresholds of
      Inl e \<Rightarrow> Inl e | Inr (out, tot) \<Rightarrow> getitem ''risk'' out)
     \<noteq> Inr [CStr ''medio'', CStr ''alto'']
   \<and> classify example_thresholds 15 = ''medio''"
  by code_simp

section \<open>The argument is not written to\<close>

lemma obj_frame:
  assumes "process_country_df_obj today P argsort h df ctry th = (h', res)"
  shows "take (length h) h' = h"
  using assms
  unfolding process_country_df_obj_def alloc_def Let_def
  by (auto split: sum.splits if_splits prod.splits)

lemma obj_refines_eq:
  assumes "df < length h"
  shows "(case process_country_df_obj today P argsort h df ctry th of
            (h', Inl e) \<Rightarrow> Inl e
          | (h', Inr (r, tot)) \<Rightarrow> if r < length h' then Inr (h' ! r, tot) else Inl NoColumns)
         = process_country_df today P argsort (h ! df) ctry th"
  using assms
  unfolding process_country_df_obj_def process_country_df_def windowed_def alias_cases_def alloc_def Let_def
  by (simp add: nth_append split: sum.split)


lemma obj_result_ref:
  assumes "process_country_df_obj today P argsort h df ctry th = (h', Inr (r, tot))" and "df < length h"
  shows "r < length h'"
  using assms
  unfolding process_country_df_obj_def alloc_def Let_def
  by (auto split: sum.splits if_splits prod.splits)

text \<open>
  C10. \<open>process_country_df\<close> never writes to the frame it is given: whether it
  returns or raises, every frame that existed before the call, the argument among them,
  is unchanged after it. What it returns is the result of the function on the value of
  the argument, in a frame of the store after the call.
\<close>

theorem input_not_mutated:
  assumes "df < length h"
    and "process_country_df_obj today P argsort h df ctry th = (h', res)"
  shows "h' ! df = h ! df \<and> take (length h) h' = h
     \<and> (case res of
           Inl e \<Rightarrow> process_country_df today P argsort (h ! df) ctry th = Inl e
         | Inr (r, tot) \<Rightarrow>
             r < length h' \<and> process_country_df today P argsort (h ! df) ctry th = Inr (h' ! r, tot))"
proof -
  have f: "take (length h) h' = h" by (rule obj_frame[OF assms(2)])
  have "h' ! df = take (length h) h' ! df" using assms(1) by simp
  then have a: "h' ! df = h ! df" by (simp only: f)
  note e = obj_refines_eq[OF assms(1), of today P argsort ctry th]
  have c: "case res of
           Inl e \<Rightarrow> process_country_df today P argsort (h ! df) ctry th = Inl e
         | Inr (r, tot) \<Rightarrow>
             r < length h' \<and> process_country_df today P argsort (h ! df) ctry th = Inr (h' ! r, tot)"
  proof (cases res)
    case (Inl x)
    with e assms(2) show ?thesis by simp
  next
    case (Inr y)
    obtain r tot where y: "y = (r, tot)" by (cases y)
    from assms(2) Inr y have p: "process_country_df_obj today P argsort h df ctry th = (h', Inr (r, tot))"
      by simp
    have r: "r < length h'" by (rule obj_result_ref[OF p assms(1)])
    from e p r Inr y show ?thesis by simp
  qed
  from a f c show ?thesis by blast
qed

theorem input_not_mutated_witness:
  "(1 :: nat) < length [example_rows, [(''date'', [CStr ''yesterday''])]]
   \<and> (\<exists>h'. process_country_df_obj jan5 iso_dates stable_argsort
              [example_rows, [(''date'', [CStr ''yesterday''])]] 1 ''MX'' example_thresholds
            = (h', Inl UnparseableDate)
          \<and> h' ! 1 = [(''date'', [CStr ''yesterday''])]
          \<and> take 2 h' = [example_rows, [(''date'', [CStr ''yesterday''])]])
   \<and> (\<exists>h' r tot. process_country_df_obj jan5 iso_dates stable_argsort
              [example_rows, [(''date'', [CStr ''yesterday''])]] 0 ''MX'' example_thresholds
            = (h', Inr (r, tot))
          \<and> h' ! 0 = example_rows
          \<and> take 2 h' = [example_rows, [(''date'', [CStr ''yesterday''])]])"
proof -
  let ?h = "[example_rows, [(''date'', [CStr ''yesterday''])]]"
  have l: "(1 :: nat) < length ?h" by simp
  have l0: "(0 :: nat) < length ?h" by simp
  have s1: "snd (process_country_df_obj jan5 iso_dates stable_argsort ?h 1 ''MX'' example_thresholds)
            = Inl UnparseableDate"
    by code_simp
  then obtain h1 where e1: "process_country_df_obj jan5 iso_dates stable_argsort ?h 1 ''MX'' example_thresholds
            = (h1, Inl UnparseableDate)"
    by (cases "process_country_df_obj jan5 iso_dates stable_argsort ?h 1 ''MX'' example_thresholds") simp
  have s0: "snd (process_country_df_obj jan5 iso_dates stable_argsort ?h 0 ''MX'' example_thresholds)
            = Inr (4, \<lparr>country = ''MX'', total_confirmed = 25, total_new_cases = 25\<rparr>)"
    by code_simp
  then obtain h0 r tot where e0: "process_country_df_obj jan5 iso_dates stable_argsort ?h 0 ''MX'' example_thresholds
            = (h0, Inr (r, tot))"
    by (cases "process_country_df_obj jan5 iso_dates stable_argsort ?h 0 ''MX'' example_thresholds") simp
  have n2: "length ?h = 2" by simp
  from input_not_mutated[OF l e1] have a: "h1 ! 1 = [(''date'', [CStr ''yesterday''])] \<and> take 2 h1 = ?h"
    unfolding n2 by simp
  from input_not_mutated[OF l0 e0] have b: "h0 ! 0 = example_rows \<and> take 2 h0 = ?h"
    unfolding n2 by simp
  from l e1 a e0 b show ?thesis by blast
qed

end
